theory Spec2Isabelle
  imports Complex_Main
begin

section \<open>Data model of DetectionStatistics.jsx\<close>

text \<open>
  The six keys of the \<open>stats\<close> and \<open>currentDetections\<close> objects. Both objects are
  only ever read and written at these keys, so each is a function from \<open>kind\<close>;
  the spread update \<open>{...prev, [k]: v}\<close> is the function update \<open>prev(k := v)\<close>.
  Counters are \<open>int\<close>. A finite JavaScript number is the \<open>real\<close> it denotes; the
  arithmetic on coordinates is rounded to doubles by \<open>fl\<close> below.
\<close>

datatype kind = FocusLost | FaceAbsent | MultipleFaces | PhoneDetected | NotesDetected | Drowsiness

text \<open>The keys in the order in which the object literals list them (the order of \<open>Object.values\<close>).\<close>

definition kinds :: "kind list" where
  "kinds = [FocusLost, FaceAbsent, MultipleFaces, PhoneDetected, NotesDetected, Drowsiness]"

definition EAR_THRESHOLD :: real where "EAR_THRESHOLD = 2 / 10"
definition DROWSINESS_FRAMES :: int where "DROWSINESS_FRAMES = 15"
definition FOCUS_LOST_FRAMES :: int where "FOCUS_LOST_FRAMES = 35"

text \<open>
  JavaScript arithmetic is IEEE 754 double precision: the result of an operation is the
  exact result rounded to the nearest number with a significand of 53 bits, a tie going
  to the even significand. \<open>roundEven\<close> rounds to the nearest integer, ties to even;
  \<open>fl x\<close> scales \<open>x\<close> until its significand is an integer of 53 bits, rounds that and
  scales back. The exponent is not bounded: BlazeFace coordinates are single-precision
  values and the dimensions of a video are 32-bit integers, so no result of the arithmetic
  below overflows or is subnormal, and halving or quartering a video dimension is exact.
\<close>

definition roundEven :: "real \<Rightarrow> int" where
  "roundEven x =
     (let n = \<lfloor>x\<rfloor>; r = x - of_int n
      in if r < 1 / 2 then n else if 1 / 2 < r then n + 1 else if even n then n else n + 1)"

definition fl :: "real \<Rightarrow> real" where
  "fl x = (if x = 0 then 0
           else (let e = \<lfloor>log 2 \<bar>x\<bar>\<rfloor> - 52
                 in of_int (roundEven (x / 2 powi e)) * 2 powi e))"

text \<open>A BlazeFace prediction; \<open>predProbability\<close> is \<open>pred.probability[0]\<close>, and
  \<open>predLandmarks\<close> is \<open>None\<close> when \<open>pred.landmarks\<close> is undefined.\<close>

record prediction =
  topLeft :: "real \<times> real"
  bottomRight :: "real \<times> real"
  predProbability :: real
  predLandmarks :: "(real \<times> real) list option"

text \<open>The object built by \<open>detectFacesTF\<close> for each prediction.\<close>

record face =
  faceX :: real
  faceY :: real
  faceWidth :: real
  faceHeight :: real
  centerX :: real
  centerY :: real
  probability :: real
  landmarks :: "(real \<times> real) list option"

text \<open>A COCO-SSD prediction, and the object built from it by \<open>detectObjectsTF\<close>.\<close>

record detection =
  predClass :: string
  score :: real
  predBbox :: "real list"

record object =
  objClass :: string
  confidence :: real
  bbox :: "real list"

text \<open>One entry \<open>{type, active}\<close> of \<open>detectionResults\<close>.\<close>

record result =
  resType :: kind
  active :: bool

text \<open>The \<open>video\<close> element behind \<open>videoRef.current\<close>.\<close>

record video =
  srcObject :: bool

text \<open>
  The component's state: the \<open>useState\<close> cells and the \<open>useRef\<close> cells.
  \<open>videoRef = None\<close> is \<open>videoRef.current === null\<close>; \<open>streamRef = Some b\<close> is a
  media stream whose tracks are live (\<open>b\<close>) or stopped; the two model refs hold
  whether a model has been stored in them.
\<close>

record state =
  stats :: "kind \<Rightarrow> int"
  currentDetections :: "kind \<Rightarrow> bool"
  isMonitoring :: bool
  cameraActive :: bool
  modelsLoaded :: bool
  loadingStatus :: string
  detectionResults :: "result list"
  videoRef :: "video option"
  streamRef :: "bool option"
  blazeFaceModelRef :: bool
  cocoSsdModelRef :: bool
  focusLostFrames :: int
  drowsyFrames :: int

text \<open>
  What one run of \<open>runDetection\<close> reads from outside the component: the two models'
  predictions for the current video frame, the \<open>videoWidth\<close> and \<open>videoHeight\<close> the
  video element reports, and the value returned by \<open>Math.random()\<close>.
\<close>

record frame =
  facePredictions :: "prediction list"
  objectPredictions :: "detection list"
  videoWidth :: nat
  videoHeight :: nat
  mathRandom :: real

text \<open>
  The values \<open>runDetection\<close> closes over: \<open>useCallback\<close> rebuilds it from the render's
  \<open>cameraActive\<close>, \<open>modelsLoaded\<close> and \<open>currentDetections\<close>.
\<close>

record captured =
  cCameraActive :: bool
  cModelsLoaded :: bool
  cCurrentDetections :: "kind \<Rightarrow> bool"

definition initial :: state where
  "initial = \<lparr> stats = (\<lambda>_. 0), currentDetections = (\<lambda>_. False),
     isMonitoring = False, cameraActive = False, modelsLoaded = False,
     loadingStatus = [], detectionResults = [],
     videoRef = None, streamRef = None,
     blazeFaceModelRef = False, cocoSsdModelRef = False,
     focusLostFrames = 0, drowsyFrames = 0 \<rparr>"

section \<open>Models and camera\<close>

text \<open>\<open>loadModels\<close>, once both \<open>load()\<close> promises have resolved.\<close>

definition loadModels :: "state \<Rightarrow> state" where
  "loadModels s = s\<lparr> blazeFaceModelRef := True, cocoSsdModelRef := True,
     modelsLoaded := True, loadingStatus := [] \<rparr>"

text \<open>
  The outcome of \<open>getUserMedia\<close> and of \<open>play()\<close>: the request is rejected, or a
  stream is returned and \<open>play()\<close> resolves (\<open>True\<close>) or rejects (\<open>False\<close>).
\<close>

datatype media = Denied | Stream bool

datatype error = GetUserMediaRejected | PlayRejected

text \<open>
  An \<open>async\<close> function that throws leaves the state it reached behind:
  \<open>Inl (e, s)\<close> is the rejection \<open>e\<close> in state \<open>s\<close>, \<open>Inr s\<close> is completion.
\<close>

type_synonym outcome = "(error \<times> state) + state"

definition settled :: "outcome \<Rightarrow> state" where
  "settled r = (case r of Inl (e, s) \<Rightarrow> s | Inr s \<Rightarrow> s)"

definition startCamera :: "media \<Rightarrow> state \<Rightarrow> outcome" where
  "startCamera m s =
     (case m of
        Denied \<Rightarrow> Inl (GetUserMediaRejected, s)
      | Stream plays \<Rightarrow>
          (let s1 = s\<lparr> streamRef := Some True \<rparr> in
           case videoRef s1 of
             None \<Rightarrow> Inr (s1\<lparr> cameraActive := True \<rparr>)
           | Some v \<Rightarrow>
               (let s2 = s1\<lparr> videoRef := Some (v\<lparr> srcObject := True \<rparr>) \<rparr> in
                if plays then Inr (s2\<lparr> cameraActive := True \<rparr>)
                else Inl (PlayRejected, s2))))"

definition stopCamera :: "state \<Rightarrow> state" where
  "stopCamera s =
     (let s1 = (case streamRef s of None \<Rightarrow> s | Some _ \<Rightarrow> s\<lparr> streamRef := Some False \<rparr>);
          s2 = (case videoRef s1 of None \<Rightarrow> s1
                | Some v \<Rightarrow> s1\<lparr> videoRef := Some (v\<lparr> srcObject := False \<rparr>) \<rparr>)
      in s2\<lparr> cameraActive := False \<rparr>)"

definition handleStartStop :: "media \<Rightarrow> state \<Rightarrow> outcome" where
  "handleStartStop m s =
     (if \<not> isMonitoring s then
        (if \<not> cameraActive s then
           (case startCamera m s of
              Inl e \<Rightarrow> Inl e
            | Inr s' \<Rightarrow> Inr (s'\<lparr> isMonitoring := True \<rparr>))
         else Inr (s\<lparr> isMonitoring := True \<rparr>))
      else Inr (stopCamera (s\<lparr> isMonitoring := False \<rparr>)))"

section \<open>Detectors\<close>

definition toFace :: "prediction \<Rightarrow> face" where
  "toFace pred = \<lparr> faceX = fst (topLeft pred), faceY = snd (topLeft pred),
     faceWidth = fl (fst (bottomRight pred) - fst (topLeft pred)),
     faceHeight = fl (snd (bottomRight pred) - snd (topLeft pred)),
     centerX = fl (fl (fst (topLeft pred) + fst (bottomRight pred)) / 2),
     centerY = fl (fl (snd (topLeft pred) + snd (bottomRight pred)) / 2),
     probability = predProbability pred,
     landmarks = predLandmarks pred \<rparr>"

definition detectFacesTF :: "state \<Rightarrow> video option \<Rightarrow> prediction list \<Rightarrow> face list" where
  "detectFacesTF s videoElement predictions =
     (if \<not> blazeFaceModelRef s \<or> videoElement = None then []
      else map toFace predictions)"

definition toObject :: "detection \<Rightarrow> object" where
  "toObject pred = \<lparr> objClass = (if predClass pred = ''cell phone'' then ''phone'' else ''book''),
     confidence = score pred, bbox = predBbox pred \<rparr>"

definition detectObjectsTF :: "state \<Rightarrow> video option \<Rightarrow> detection list \<Rightarrow> object list" where
  "detectObjectsTF s videoElement predictions =
     (if \<not> cocoSsdModelRef s \<or> videoElement = None then []
      else map toObject (filter (\<lambda>pred. predClass pred \<in> set [''cell phone'', ''book'']) predictions))"

section \<open>Trackers\<close>

text \<open>\<open>videoRef.current?.videoWidth || 640\<close> and \<open>videoRef.current?.videoHeight || 480\<close>.\<close>

definition videoW :: "state \<Rightarrow> frame \<Rightarrow> real" where
  "videoW s f = (if videoRef s = None \<or> videoWidth f = 0 then 640 else real (videoWidth f))"

definition videoH :: "state \<Rightarrow> frame \<Rightarrow> real" where
  "videoH s f = (if videoRef s = None \<or> videoHeight f = 0 then 480 else real (videoHeight f))"

text \<open>
  The local \<open>drift\<close>: the subtractions, the two products, their sum and \<open>Math.sqrt\<close>
  each deliver the rounded result.
\<close>

definition drift :: "state \<Rightarrow> frame \<Rightarrow> face \<Rightarrow> real" where
  "drift s f fc =
     (let dX = \<bar>fl (centerX fc - videoW s f / 2)\<bar>;
          dY = \<bar>fl (centerY fc - videoH s f / 2)\<bar>
      in fl (sqrt (fl (fl (dX * dX) + fl (dY * dY)))))"

definition detectFocusLoss :: "frame \<Rightarrow> face option \<Rightarrow> state \<Rightarrow> bool \<times> state" where
  "detectFocusLoss f fc s =
     (case fc of
        None \<Rightarrow>
          (let s' = s\<lparr> focusLostFrames := focusLostFrames s + 1 \<rparr>
           in (focusLostFrames s' \<ge> FOCUS_LOST_FRAMES, s'))
      | Some a \<Rightarrow>
          (let s' = (if drift s f a > min (videoW s f) (videoH s f) / 4
                     then s\<lparr> focusLostFrames := focusLostFrames s + 1 \<rparr>
                     else s\<lparr> focusLostFrames := max 0 (focusLostFrames s - 1) \<rparr>)
           in (focusLostFrames s' \<ge> FOCUS_LOST_FRAMES, s')))"

definition detectDrowsiness :: "frame \<Rightarrow> face option \<Rightarrow> state \<Rightarrow> bool \<times> state" where
  "detectDrowsiness f fc s =
     (if (case fc of None \<Rightarrow> True | Some a \<Rightarrow> landmarks a = None)
      then (False, s\<lparr> drowsyFrames := 0 \<rparr>)
      else
        (let isClosed = (mathRandom f < 8 / 100);
             s' = s\<lparr> drowsyFrames := (if isClosed then drowsyFrames s + 1 else 0) \<rparr>
         in (drowsyFrames s' \<ge> DROWSINESS_FRAMES, s')))"

section \<open>The detection loop\<close>

definition triggerDetection :: "kind \<Rightarrow> state \<Rightarrow> state" where
  "triggerDetection detectionType s =
     s\<lparr> stats := (stats s)(detectionType := stats s detectionType + 1),
        currentDetections := (currentDetections s)(detectionType := True) \<rparr>"

definition clearDetection :: "kind \<Rightarrow> state \<Rightarrow> state" where
  "clearDetection detectionType s =
     s\<lparr> currentDetections := (currentDetections s)(detectionType := False) \<rparr>"

definition resetStats :: "state \<Rightarrow> state" where
  "resetStats s = s\<lparr> stats := (\<lambda>_. 0), currentDetections := (\<lambda>_. False),
     focusLostFrames := 0, drowsyFrames := 0 \<rparr>"

text \<open>
  The block \<open>runDetection\<close> repeats for each of the six conditions: with the condition's
  value \<open>b\<close>, compare against the captured \<open>currentDetections\<close>, trigger or clear, and
  push \<open>{type, active}\<close> onto the local \<open>detectionResults\<close> array.
\<close>

definition report :: "(kind \<Rightarrow> bool) \<Rightarrow> kind \<Rightarrow> bool \<Rightarrow> state \<times> result list \<Rightarrow> state \<times> result list" where
  "report cd k b p =
     (if b then ((if \<not> cd k then triggerDetection k (fst p) else fst p),
                 snd p @ [\<lparr> resType = k, active = True \<rparr>])
      else ((if cd k then clearDetection k (fst p) else fst p),
            snd p @ [\<lparr> resType = k, active = False \<rparr>]))"

definition mainFaceOf :: "face list \<Rightarrow> face option" where
  "mainFaceOf faces = (case faces of [] \<Rightarrow> None | a # _ \<Rightarrow> Some a)"

definition runDetection :: "captured \<Rightarrow> frame \<Rightarrow> state \<Rightarrow> state" where
  "runDetection c f s =
     (if videoRef s = None \<or> \<not> cCameraActive c \<or> \<not> cModelsLoaded c then s
      else
        (let faces = detectFacesTF s (videoRef s) (facePredictions f);
             objects = detectObjectsTF s (videoRef s) (objectPredictions f);
             cd = cCurrentDetections c;
             mainFace = mainFaceOf faces;
             p1 = report cd FaceAbsent (mainFace = None) (s, []);
             p2 = report cd MultipleFaces (length faces > 1) p1;
             fl = detectFocusLoss f mainFace (fst p2);
             p3 = report cd FocusLost (fst fl) (snd fl, snd p2);
             dr = detectDrowsiness f mainFace (fst p3);
             p4 = report cd Drowsiness (fst dr) (snd dr, snd p3);
             phoneDetected = list_ex (\<lambda>obj. objClass obj = ''phone'') objects;
             notesDetected = list_ex (\<lambda>obj. objClass obj = ''book'') objects;
             p5 = report cd PhoneDetected phoneDetected p4;
             p6 = report cd NotesDetected notesDetected p5
         in (fst p6)\<lparr> detectionResults := snd p6 \<rparr>))"

text \<open>
  The callback of the latest render, and one firing of the interval on it. The interval
  effect re-registers the callback after every render, so ticks that do not overlap run
  with the captured values equal to the current state.
\<close>

definition render :: "state \<Rightarrow> captured" where
  "render s = \<lparr> cCameraActive = cameraActive s, cModelsLoaded = modelsLoaded s,
                cCurrentDetections = currentDetections s \<rparr>"

definition tick :: "frame \<Rightarrow> state \<Rightarrow> state" where
  "tick f s = runDetection (render s) f s"

text \<open>The condition under which the effect keeps an interval registered.\<close>

definition intervalActive :: "state \<Rightarrow> bool" where
  "intervalActive s = (isMonitoring s \<and> cameraActive s \<and> modelsLoaded s)"

text \<open>The guard at the head of \<open>runDetection\<close>: the run returns before any detector is called.\<close>

definition skips :: "captured \<Rightarrow> state \<Rightarrow> bool" where
  "skips c s = (videoRef s = None \<or> \<not> cCameraActive c \<or> \<not> cModelsLoaded c)"

text \<open>
  The value of the condition that \<open>runDetection\<close> tests for each kind, on frame \<open>f\<close> in
  state \<open>s\<close>: the classifier output of that kind for the tick.
\<close>

definition classify :: "frame \<Rightarrow> state \<Rightarrow> kind \<Rightarrow> bool" where
  "classify f s k =
     (let faces = detectFacesTF s (videoRef s) (facePredictions f);
          objects = detectObjectsTF s (videoRef s) (objectPredictions f);
          mainFace = mainFaceOf faces
      in case k of
           FaceAbsent \<Rightarrow> mainFace = None
         | MultipleFaces \<Rightarrow> length faces > 1
         | FocusLost \<Rightarrow> fst (detectFocusLoss f mainFace s)
         | Drowsiness \<Rightarrow> fst (detectDrowsiness f mainFace s)
         | PhoneDetected \<Rightarrow> list_ex (\<lambda>obj. objClass obj = ''phone'') objects
         | NotesDetected \<Rightarrow> list_ex (\<lambda>obj. objClass obj = ''book'') objects)"

text \<open>The order in which \<open>runDetection\<close> pushes its entries.\<close>

definition pushOrder :: "kind list" where
  "pushOrder = [FaceAbsent, MultipleFaces, FocusLost, Drowsiness, PhoneDetected, NotesDetected]"

text \<open>A sequence of ticks, one frame each, and the classifier outputs of the ticks that ran.\<close>

fun run :: "frame list \<Rightarrow> state \<Rightarrow> state" where
  "run [] s = s"
| "run (f # fs) s = run fs (tick f s)"

fun outputs :: "kind \<Rightarrow> frame list \<Rightarrow> state \<Rightarrow> bool list" where
  "outputs k [] s = []"
| "outputs k (f # fs) s =
     (if skips (render s) s then [] else [classify f s k]) @ outputs k fs (tick f s)"

text \<open>The number of false-to-true edges of a boolean sequence that follows the value \<open>prev\<close>.\<close>

fun edges :: "bool \<Rightarrow> bool list \<Rightarrow> int" where
  "edges prev [] = 0"
| "edges prev (b # bs) = (if b \<and> \<not> prev then 1 else 0) + edges b bs"

section \<open>Severity\<close>

record severity =
  level :: string
  color :: string

definition getTotalViolations :: "state \<Rightarrow> int" where
  "getTotalViolations s = foldl (\<lambda>t n. t + n) 0 (map (stats s) kinds)"

definition getSeverityLevel :: "state \<Rightarrow> severity" where
  "getSeverityLevel s =
     (let t = getTotalViolations s in
      if t \<ge> 20 then \<lparr> level = ''Critical'', color = ''text-red-700 bg-red-200'' \<rparr>
      else if t \<ge> 15 then \<lparr> level = ''High Risk'', color = ''text-red-600 bg-red-100'' \<rparr>
      else if t \<ge> 8 then \<lparr> level = ''Medium Risk'', color = ''text-yellow-600 bg-yellow-100'' \<rparr>
      else if t \<ge> 3 then \<lparr> level = ''Low Risk'', color = ''text-orange-600 bg-orange-100'' \<rparr>
      else \<lparr> level = ''Normal'', color = ''text-green-600 bg-green-100'' \<rparr>)"

section \<open>Example inputs\<close>

text \<open>
  A state in which monitoring runs (models loaded, camera active, video element mounted),
  a frame with no face and no object, and the same frame with one phone detection.
\<close>

definition exReady :: state where
  "exReady = initial\<lparr> isMonitoring := True, cameraActive := True, modelsLoaded := True,
     videoRef := Some \<lparr> srcObject = True \<rparr>, streamRef := Some True,
     blazeFaceModelRef := True, cocoSsdModelRef := True \<rparr>"

definition exEmpty :: frame where
  "exEmpty = \<lparr> facePredictions = [], objectPredictions = [],
     videoWidth = 640, videoHeight = 480, mathRandom = 1 / 2 \<rparr>"

definition exPhone :: frame where
  "exPhone = exEmpty\<lparr> objectPredictions :=
     [\<lparr> predClass = ''cell phone'', score = 9 / 10, predBbox = [] \<rparr>] \<rparr>"


text \<open>
  A face prediction with the given corners and landmarks, a frame whose only face is
  centred in the 640 by 480 video, and the same frame with \<open>Math.random()\<close> returning 0.
\<close>

definition exFace :: "real \<times> real \<Rightarrow> real \<times> real \<Rightarrow> (real \<times> real) list option \<Rightarrow> prediction" where
  "exFace p q lm = \<lparr> topLeft = p, bottomRight = q, predProbability = 99 / 100, predLandmarks = lm \<rparr>"

text \<open>A face of 80 by 80 whose centre is the given point.\<close>

definition exFaceAt :: "real \<Rightarrow> real \<Rightarrow> face" where
  "exFaceAt cx cy = \<lparr> faceX = cx - 40, faceY = cy - 40, faceWidth = 80, faceHeight = 80,
     centerX = cx, centerY = cy, probability = 99 / 100, landmarks = Some [] \<rparr>"

text \<open>
  A face just off the circle of radius 120 around the centre of the 640 by 480 video:
  its centre is (440, y) with \<open>y\<close> the double nearest to 240.0000001.
\<close>

definition exGrazing :: face where
  "exGrazing = exFaceAt 440 (240 + 3518437 / 2 ^ 45)"

definition exCentred :: frame where
  "exCentred = exEmpty\<lparr> facePredictions := [exFace (270, 190) (370, 290) (Some [])] \<rparr>"

definition exClosed :: frame where
  "exClosed = exCentred\<lparr> mathRandom := 0 \<rparr>"

section \<open>Effect of one run of the detection loop\<close>

lemma snd_report: "snd (report cd k b p) = snd p @ [\<lparr> resType = k, active = b \<rparr>]"
  by (simp add: report_def)

lemma stats_report:
  "stats (fst (report cd k b p)) k' =
     (if k' = k \<and> b \<and> \<not> cd k then stats (fst p) k' + 1 else stats (fst p) k')"
  by (simp add: report_def triggerDetection_def clearDetection_def)

lemma current_report:
  "currentDetections (fst (report cd k b p)) k' =
     (if k' = k \<and> (b \<longleftrightarrow> \<not> cd k) then b else currentDetections (fst p) k')"
  by (auto simp add: report_def triggerDetection_def clearDetection_def)

lemma frame_report:
  "focusLostFrames (fst (report cd k b p)) = focusLostFrames (fst p)"
  "drowsyFrames (fst (report cd k b p)) = drowsyFrames (fst p)"
  "videoRef (fst (report cd k b p)) = videoRef (fst p)"
  "isMonitoring (fst (report cd k b p)) = isMonitoring (fst p)"
  "cameraActive (fst (report cd k b p)) = cameraActive (fst p)"
  "modelsLoaded (fst (report cd k b p)) = modelsLoaded (fst p)"
  "blazeFaceModelRef (fst (report cd k b p)) = blazeFaceModelRef (fst p)"
  "cocoSsdModelRef (fst (report cd k b p)) = cocoSsdModelRef (fst p)"
  "streamRef (fst (report cd k b p)) = streamRef (fst p)"
  "loadingStatus (fst (report cd k b p)) = loadingStatus (fst p)"
  by (simp_all add: report_def triggerDetection_def clearDetection_def)

lemma focus_cong:
  "focusLostFrames s' = focusLostFrames s \<Longrightarrow> videoRef s' = videoRef s \<Longrightarrow>
   fst (detectFocusLoss f fc s') = fst (detectFocusLoss f fc s)"
  by (simp add: detectFocusLoss_def Let_def drift_def videoW_def videoH_def split: option.splits)

lemma drowsy_cong:
  "drowsyFrames s' = drowsyFrames s \<Longrightarrow>
   fst (detectDrowsiness f fc s') = fst (detectDrowsiness f fc s)"
  by (simp add: detectDrowsiness_def Let_def split: option.splits)

lemma focus_after_report:
  "fst (detectFocusLoss f fc (fst (report cd k b p))) = fst (detectFocusLoss f fc (fst p))"
  by (rule focus_cong) (simp_all add: frame_report)

lemma drowsy_after_report:
  "fst (detectDrowsiness f fc (fst (report cd k b p))) = fst (detectDrowsiness f fc (fst p))"
  by (rule drowsy_cong) (simp_all add: frame_report)

lemma snd_detectFocusLoss:
  "stats (snd (detectFocusLoss f fc s)) = stats s"
  "currentDetections (snd (detectFocusLoss f fc s)) = currentDetections s"
  "drowsyFrames (snd (detectFocusLoss f fc s)) = drowsyFrames s"
  "videoRef (snd (detectFocusLoss f fc s)) = videoRef s"
  by (simp_all add: detectFocusLoss_def Let_def split: option.splits)

lemma snd_detectDrowsiness:
  "stats (snd (detectDrowsiness f fc s)) = stats s"
  "currentDetections (snd (detectDrowsiness f fc s)) = currentDetections s"
  "focusLostFrames (snd (detectDrowsiness f fc s)) = focusLostFrames s"
  "videoRef (snd (detectDrowsiness f fc s)) = videoRef s"
  by (simp_all add: detectDrowsiness_def Let_def split: option.splits)

lemma drowsy_after_focus:
  "fst (detectDrowsiness f fc (snd (detectFocusLoss f fc' s))) = fst (detectDrowsiness f fc s)"
  by (rule drowsy_cong) (simp_all add: snd_detectFocusLoss)

lemma runDetection_skip: "skips c s \<Longrightarrow> runDetection c f s = s"
  by (simp add: runDetection_def skips_def)


lemma runDetection_results:
  "\<not> skips c s \<Longrightarrow>
   detectionResults (runDetection c f s) = map (\<lambda>k. \<lparr> resType = k, active = classify f s k \<rparr>) pushOrder"
  by (cases "videoRef s") (simp_all add: runDetection_def skips_def Let_def snd_report pushOrder_def classify_def
      focus_after_report drowsy_after_report drowsy_after_focus frame_report snd_detectFocusLoss)

lemma runDetection_stats:
  "\<not> skips c s \<Longrightarrow>
   stats (runDetection c f s) k =
     stats s k + (if classify f s k \<and> \<not> cCurrentDetections c k then 1 else 0)"
  by (cases "videoRef s"; cases k) (simp_all add: runDetection_def skips_def Let_def stats_report classify_def
      focus_after_report drowsy_after_report drowsy_after_focus frame_report snd_detectFocusLoss snd_detectDrowsiness)

lemma tick_current:
  "\<not> skips (render s) s \<Longrightarrow> currentDetections (tick f s) k = classify f s k"
  by (cases k) (auto simp add: tick_def render_def runDetection_def skips_def Let_def current_report classify_def
      focus_after_report drowsy_after_report drowsy_after_focus frame_report snd_detectFocusLoss snd_detectDrowsiness)

lemma runDetection_current:
  "\<not> skips c s \<Longrightarrow>
   currentDetections (runDetection c f s) k =
     (if classify f s k = (\<not> cCurrentDetections c k) then classify f s k else currentDetections s k)"
  by (cases "videoRef s"; cases k) (auto simp add: runDetection_def skips_def Let_def current_report classify_def
      focus_after_report drowsy_after_report drowsy_after_focus frame_report snd_detectFocusLoss snd_detectDrowsiness)

lemma tick_skip: "skips (render s) s \<Longrightarrow> tick f s = s"
  by (simp add: tick_def runDetection_skip)

lemma tick_stats:
  "\<not> skips (render s) s \<Longrightarrow>
   stats (tick f s) k = stats s k + (if classify f s k \<and> \<not> currentDetections s k then 1 else 0)"
  by (simp add: tick_def runDetection_stats render_def)

lemma run_stats:
  "stats (run fs s) k = stats s k + edges (currentDetections s k) (outputs k fs s)"
proof (induction fs arbitrary: s)
  case Nil
  show ?case by simp
next
  case (Cons f fs)
  show ?case
  proof (cases "skips (render s) s")
    case True
    then show ?thesis using Cons.IH [of s] by (simp add: tick_skip)
  next
    case False
    then show ?thesis using Cons.IH [of "tick f s"] by (simp add: tick_stats tick_current)
  qed
qed

lemma edges_nonneg: "0 \<le> edges prev bs"
  by (induction bs arbitrary: prev) auto

lemma resetStats_fields:
  "stats (resetStats s) k = 0" "\<not> currentDetections (resetStats s) k"
  "focusLostFrames (resetStats s) = 0" "drowsyFrames (resetStats s) = 0"
  by (simp_all add: resetStats_def)

lemma total_sum:
  "getTotalViolations s = stats s FocusLost + stats s FaceAbsent + stats s MultipleFaces
     + stats s PhoneDetected + stats s NotesDetected + stats s Drowsiness"
  by (simp add: getTotalViolations_def kinds_def)

lemma focus_frames_cong:
  "focusLostFrames s' = focusLostFrames s \<Longrightarrow> videoRef s' = videoRef s \<Longrightarrow>
   focusLostFrames (snd (detectFocusLoss f fc s')) = focusLostFrames (snd (detectFocusLoss f fc s))"
  by (simp add: detectFocusLoss_def Let_def drift_def videoW_def videoH_def split: option.splits)

lemma drowsy_frames_cong:
  "drowsyFrames s' = drowsyFrames s \<Longrightarrow>
   drowsyFrames (snd (detectDrowsiness f fc s')) = drowsyFrames (snd (detectDrowsiness f fc s))"
  by (simp add: detectDrowsiness_def Let_def split: option.splits)

lemma focus_frames_after_report:
  "focusLostFrames (snd (detectFocusLoss f fc (fst (report cd k b p)))) =
   focusLostFrames (snd (detectFocusLoss f fc (fst p)))"
  by (rule focus_frames_cong) (simp_all add: frame_report)

lemma drowsy_frames_after_report:
  "drowsyFrames (snd (detectDrowsiness f fc (fst (report cd k b p)))) =
   drowsyFrames (snd (detectDrowsiness f fc (fst p)))"
  by (rule drowsy_frames_cong) (simp_all add: frame_report)

lemma drowsy_frames_after_focus:
  "drowsyFrames (snd (detectDrowsiness f fc (snd (detectFocusLoss f fc' s)))) =
   drowsyFrames (snd (detectDrowsiness f fc s))"
  by (rule drowsy_frames_cong) (simp_all add: snd_detectFocusLoss)

lemma detect_frame:
  "isMonitoring (snd (detectFocusLoss f fc s)) = isMonitoring s"
  "cameraActive (snd (detectFocusLoss f fc s)) = cameraActive s"
  "modelsLoaded (snd (detectFocusLoss f fc s)) = modelsLoaded s"
  "blazeFaceModelRef (snd (detectFocusLoss f fc s)) = blazeFaceModelRef s"
  "cocoSsdModelRef (snd (detectFocusLoss f fc s)) = cocoSsdModelRef s"
  "streamRef (snd (detectFocusLoss f fc s)) = streamRef s"
  "isMonitoring (snd (detectDrowsiness f fc s)) = isMonitoring s"
  "cameraActive (snd (detectDrowsiness f fc s)) = cameraActive s"
  "modelsLoaded (snd (detectDrowsiness f fc s)) = modelsLoaded s"
  "blazeFaceModelRef (snd (detectDrowsiness f fc s)) = blazeFaceModelRef s"
  "cocoSsdModelRef (snd (detectDrowsiness f fc s)) = cocoSsdModelRef s"
  "streamRef (snd (detectDrowsiness f fc s)) = streamRef s"
  by (simp_all add: detectFocusLoss_def detectDrowsiness_def Let_def split: option.splits)

lemma runDetection_frame:
  "videoRef (runDetection c f s) = videoRef s"
  "isMonitoring (runDetection c f s) = isMonitoring s"
  "cameraActive (runDetection c f s) = cameraActive s"
  "modelsLoaded (runDetection c f s) = modelsLoaded s"
  "blazeFaceModelRef (runDetection c f s) = blazeFaceModelRef s"
  "cocoSsdModelRef (runDetection c f s) = cocoSsdModelRef s"
  "streamRef (runDetection c f s) = streamRef s"
  by (simp_all add: runDetection_def Let_def frame_report snd_detectFocusLoss
      snd_detectDrowsiness detect_frame)

lemma runDetection_focusLostFrames:
  "\<not> skips c s \<Longrightarrow>
   focusLostFrames (runDetection c f s) =
   focusLostFrames (snd (detectFocusLoss f (mainFaceOf (detectFacesTF s (videoRef s) (facePredictions f))) s))"
  by (cases "videoRef s") (simp_all add: runDetection_def skips_def Let_def frame_report
      snd_detectDrowsiness focus_frames_after_report)

lemma runDetection_drowsyFrames:
  "\<not> skips c s \<Longrightarrow>
   drowsyFrames (runDetection c f s) =
   drowsyFrames (snd (detectDrowsiness f (mainFaceOf (detectFacesTF s (videoRef s) (facePredictions f))) s))"
  by (cases "videoRef s") (simp_all add: runDetection_def skips_def Let_def frame_report
      drowsy_frames_after_report drowsy_frames_after_focus)

lemma tick_frame:
  "videoRef (tick f s) = videoRef s"
  "isMonitoring (tick f s) = isMonitoring s"
  "cameraActive (tick f s) = cameraActive s"
  "modelsLoaded (tick f s) = modelsLoaded s"
  "blazeFaceModelRef (tick f s) = blazeFaceModelRef s"
  "cocoSsdModelRef (tick f s) = cocoSsdModelRef s"
  "streamRef (tick f s) = streamRef s"
  by (simp_all add: tick_def runDetection_frame)

lemma skips_tick: "skips (render (tick f s)) (tick f s) = skips (render s) s"
  by (simp add: skips_def render_def tick_frame)

lemma classify_objects_tick:
  "classify g (tick f s) PhoneDetected = classify g s PhoneDetected"
  "classify g (tick f s) NotesDetected = classify g s NotesDetected"
  by (simp_all add: classify_def detectObjectsTF_def tick_frame)

lemma exReady_runs: "\<not> skips (render exReady) exReady"
  by (simp add: skips_def render_def exReady_def initial_def)

lemma exPhone_phone: "classify exPhone exReady PhoneDetected" "\<not> classify exEmpty exReady PhoneDetected"
  by (simp_all add: classify_def detectObjectsTF_def exPhone_def exEmpty_def exReady_def initial_def toObject_def)

lemma roundEven_of_int: "roundEven (of_int m) = m"
  by (simp add: roundEven_def)

lemma fl_eq:
  assumes "2 powi n \<le> \<bar>x\<bar>" and "\<bar>x\<bar> < 2 powi (n + 1)"
  shows "fl x = of_int (roundEven (x / 2 powi (n - 52))) * 2 powi (n - 52)"
proof -
  have pos: "0 < \<bar>x\<bar>" using assms(1) by (smt (verit) zero_less_power_int)
  have up: "2 powr (real_of_int n + 1) = 2 powi (n + 1)"
    using powr_real_of_int' [of 2 "n + 1"] by simp
  have "\<lfloor>log 2 \<bar>x\<bar>\<rfloor> = n"
    using assms pos by (simp add: floor_log_eq_powr_iff powr_real_of_int' up)
  with pos show ?thesis by (auto simp add: fl_def Let_def)
qed

lemma fl_examples:
  "fl 0 = 0" "fl 120 = 120" "fl 240 = 240" "fl (- 240) = - 240" "fl 14400 = 14400" "fl 57600 = 57600"
  using fl_eq [of 6 120] fl_eq [of 7 240] fl_eq [of 7 "- 240"] fl_eq [of 13 14400] fl_eq [of 15 57600]
  by (simp_all add: fl_def roundEven_def)

text \<open>
  Three values that pin the rounding down: the double written 0.1, and the two ties
  above \<open>2 ^ 53\<close>, which go to the even significand.
\<close>

lemma fl_known_values:
  "fl (1 / 10) = 3602879701896397 / 2 ^ 55"
  "fl (2 ^ 53 + 1) = 2 ^ 53"
  "fl (2 ^ 53 + 3) = 2 ^ 53 + 4"
  using fl_eq [of "- 4" "1 / 10"] fl_eq [of 53 "2 ^ 53 + 1"] fl_eq [of 53 "2 ^ 53 + 3"]
  by (simp_all add: roundEven_def)

lemma fl_grazing:
  "fl (3518437 / 2 ^ 45) = 3518437 / 2 ^ 45"
  "fl (12379398922969 / 2 ^ 90) = 12379398922969 / 2 ^ 90"
  "fl (14400 + 12379398922969 / 2 ^ 90) = 14400"
  using fl_eq [of "- 24" "3518437 / 2 ^ 45"] fl_eq [of "- 47" "12379398922969 / 2 ^ 90"]
    fl_eq [of 13 "14400 + 12379398922969 / 2 ^ 90"]
  by (simp_all add: roundEven_def)

lemma sqrt_examples: "sqrt 14400 = 120" "sqrt 57600 = 240"
  using real_sqrt_abs [of 120] real_sqrt_abs [of 240] by simp_all

lemma ex_video:
  "videoW (exReady\<lparr> focusLostFrames := n \<rparr>) exEmpty = 640"
  "videoH (exReady\<lparr> focusLostFrames := n \<rparr>) exEmpty = 480"
  "videoW exReady exEmpty = 640" "videoH exReady exEmpty = 480"
  by (simp_all add: videoW_def videoH_def exReady_def exEmpty_def initial_def)

lemma drift_examples:
  "drift (exReady\<lparr> focusLostFrames := n \<rparr>) exEmpty (exFaceAt 320 0) = 240"
  "drift (exReady\<lparr> focusLostFrames := n \<rparr>) exEmpty (exFaceAt 320 240) = 0"
  "drift exReady exEmpty (exFaceAt 320 240) = 0"
  by (simp_all add: drift_def Let_def ex_video exFaceAt_def fl_examples sqrt_examples)

lemma drift_grazing:
  "drift (exReady\<lparr> focusLostFrames := n \<rparr>) exEmpty exGrazing = 120"
proof -
  have dX: "fl (centerX exGrazing - videoW (exReady\<lparr> focusLostFrames := n \<rparr>) exEmpty / 2) = 120"
    by (simp add: exGrazing_def exFaceAt_def ex_video fl_examples)
  have "centerY exGrazing - videoH (exReady\<lparr> focusLostFrames := n \<rparr>) exEmpty / 2 = 3518437 / 2 ^ 45"
    by (simp add: exGrazing_def exFaceAt_def ex_video)
  then have dY: "fl (centerY exGrazing - videoH (exReady\<lparr> focusLostFrames := n \<rparr>) exEmpty / 2) = 3518437 / 2 ^ 45"
    by (simp only: fl_grazing)
  have sq: "\<bar>3518437 / 2 ^ 45\<bar> * \<bar>3518437 / 2 ^ 45\<bar> = (12379398922969 / 2 ^ 90 :: real)"
    by simp
  have "drift (exReady\<lparr> focusLostFrames := n \<rparr>) exEmpty exGrazing
      = fl (sqrt (fl (fl (\<bar>120\<bar> * \<bar>120\<bar>) + fl (\<bar>3518437 / 2 ^ 45\<bar> * \<bar>3518437 / 2 ^ 45\<bar>))))"
    by (simp only: drift_def Let_def dX dY)
  also have "\<dots> = fl (sqrt (fl (fl 14400 + fl (12379398922969 / 2 ^ 90))))"
    by (simp only: sq) simp
  also have "\<dots> = fl (sqrt (fl (14400 + 12379398922969 / 2 ^ 90)))"
    by (simp only: fl_examples fl_grazing)
  also have "\<dots> = 120"
    by (simp only: fl_grazing sqrt_examples fl_examples)
  finally show ?thesis .
qed

lemma list_ex_set: "list_ex P xs = (\<exists>x\<in>set xs. P x)"
  by (simp add: list_ex_iff)

lemma objects_phone:
  "cocoSsdModelRef s \<Longrightarrow> videoRef s \<noteq> None \<Longrightarrow>
   (\<exists>obj\<in>set (detectObjectsTF s (videoRef s) ps). objClass obj = ''phone'')
     = (\<exists>p\<in>set ps. predClass p = ''cell phone'')"
  by (auto simp add: detectObjectsTF_def toObject_def)

lemma objects_book:
  "cocoSsdModelRef s \<Longrightarrow> videoRef s \<noteq> None \<Longrightarrow>
   (\<exists>obj\<in>set (detectObjectsTF s (videoRef s) ps). objClass obj = ''book'')
     = (\<exists>p\<in>set ps. predClass p = ''book'')"
proof -
  assume "cocoSsdModelRef s" and "videoRef s \<noteq> None"
  then have objs: "set (detectObjectsTF s (videoRef s) ps)
      = toObject ` {p \<in> set ps. predClass p = ''cell phone'' \<or> predClass p = ''book''}"
    by (auto simp add: detectObjectsTF_def)
  show ?thesis
  proof
    assume "\<exists>obj\<in>set (detectObjectsTF s (videoRef s) ps). objClass obj = ''book''"
    then obtain p where "p \<in> set ps" and "predClass p = ''cell phone'' \<or> predClass p = ''book''"
      and "objClass (toObject p) = ''book''"
      unfolding objs by blast
    then show "\<exists>p\<in>set ps. predClass p = ''book''"
      by (auto simp add: toObject_def)
  next
    assume "\<exists>p\<in>set ps. predClass p = ''book''"
    then obtain p where p: "p \<in> set ps" "predClass p = ''book''" by blast
    then have "objClass (toObject p) = ''book''" by (simp add: toObject_def)
    with p show "\<exists>obj\<in>set (detectObjectsTF s (videoRef s) ps). objClass obj = ''book''"
      unfolding objs by blast
  qed
qed

lemma objects_rescored:
  "map objClass (detectObjectsTF s v (map (\<lambda>p. p\<lparr> score := g p \<rparr>) ps)) = map objClass (detectObjectsTF s v ps)"
  by (simp add: detectObjectsTF_def toObject_def filter_map comp_def)

lemma list_ex_objClass:
  "list_ex (\<lambda>obj. objClass obj = c) os = (c \<in> set (map objClass os))"
  by (auto simp add: list_ex_iff)

lemma classify_rescored:
  "k = PhoneDetected \<or> k = NotesDetected \<Longrightarrow>
   classify (f\<lparr> objectPredictions := map (\<lambda>p. p\<lparr> score := g p \<rparr>) (objectPredictions f) \<rparr>) s k = classify f s k"
  by (auto simp add: classify_def list_ex_objClass objects_rescored simp del: set_map)

lemma stopCamera_eq:
  "stopCamera s = s\<lparr> cameraActive := False,
     streamRef := map_option (\<lambda>_. False) (streamRef s),
     videoRef := map_option (\<lambda>v. v\<lparr> srcObject := False \<rparr>) (videoRef s) \<rparr>"
  by (simp add: stopCamera_def Let_def split: option.splits)

lemma handleStartStop_keeps:
  "stats (settled (handleStartStop m s)) = stats s"
  "currentDetections (settled (handleStartStop m s)) = currentDetections s"
  "focusLostFrames (settled (handleStartStop m s)) = focusLostFrames s"
  "drowsyFrames (settled (handleStartStop m s)) = drowsyFrames s"
  by (simp_all add: handleStartStop_def settled_def startCamera_def stopCamera_eq Let_def
      split: media.splits option.splits)

lemma mainFaceOf_Some:
  "mainFaceOf (detectFacesTF s v ps) = Some a \<Longrightarrow> \<exists>p qs. ps = p # qs \<and> a = toFace p"
  by (cases ps) (simp_all add: mainFaceOf_def detectFacesTF_def split: if_splits)

lemma drowsy_needs_landmarks:
  "fst (detectDrowsiness f fc s) \<Longrightarrow> \<exists>a. fc = Some a \<and> landmarks a \<noteq> None"
  by (cases fc) (simp_all add: detectDrowsiness_def split: if_splits)

lemma tick_drowsyFrames:
  "\<not> skips (render s) s \<Longrightarrow>
   drowsyFrames (tick f s) =
   drowsyFrames (snd (detectDrowsiness f (mainFaceOf (detectFacesTF s (videoRef s) (facePredictions f))) s))"
  by (simp add: tick_def runDetection_drowsyFrames)

lemma drowsiness_traced:
  "\<not> currentDetections s Drowsiness \<Longrightarrow> currentDetections (run fs s) Drowsiness \<Longrightarrow>
   \<exists>f\<in>set fs. \<exists>p qs. facePredictions f = p # qs \<and> predLandmarks p \<noteq> None"
proof (induction fs arbitrary: s)
  case Nil
  then show ?case by simp
next
  case (Cons f fs)
  show ?case
  proof (cases "currentDetections (tick f s) Drowsiness")
    case False
    then show ?thesis using Cons.IH [of "tick f s"] Cons.prems by simp
  next
    case True
    with Cons.prems have runs: "\<not> skips (render s) s"
      by (auto simp add: tick_skip)
    with True have "classify f s Drowsiness" by (simp add: tick_current)
    then obtain a where a: "mainFaceOf (detectFacesTF s (videoRef s) (facePredictions f)) = Some a"
      and lm: "landmarks a \<noteq> None"
      using drowsy_needs_landmarks by (fastforce simp add: classify_def)
    from mainFaceOf_Some [OF a] obtain p qs where "facePredictions f = p # qs" "a = toFace p" by blast
    with lm show ?thesis by (auto simp add: toFace_def)
  qed
qed

lemma classify_objects_run:
  "classify g (runDetection c f s) PhoneDetected = classify g s PhoneDetected"
  "classify g (runDetection c f s) NotesDetected = classify g s NotesDetected"
  by (simp_all add: classify_def detectObjectsTF_def runDetection_frame)

section \<open>Counters and edges\<close>

text \<open>
  When every firing of the interval runs the callback of the latest render, the counter
  after a sequence of ticks is the counter before plus the number of false-to-true edges
  of the kind's classifier output over the ticks that ran; a tick never lowers a counter
  and leaves it alone when the kind is already active.
\<close>

lemma fresh_ticks_count_edges:
  "stats (run fs s) k = stats s k + edges (currentDetections s k) (outputs k fs s)
   \<and> stats (run fs (resetStats s)) k = edges False (outputs k fs (resetStats s))
   \<and> stats s k \<le> stats (tick f s) k
   \<and> stats s k \<le> stats (run fs s) k
   \<and> (currentDetections s k \<longrightarrow> stats (tick f s) k = stats s k)
   \<and> (\<not> skips (render s) s \<and> classify f s k \<longrightarrow> stats (tick f' (tick f s)) k = stats (tick f s) k)"
proof -
  have once: "stats t k \<le> stats (tick g t) k \<and> (currentDetections t k \<longrightarrow> stats (tick g t) k = stats t k)"
    for t g
    by (cases "skips (render t) t") (simp_all add: tick_skip tick_stats)
  have again: "stats (tick f' (tick f s)) k = stats (tick f s) k"
    if "\<not> skips (render s) s" "classify f s k"
    using once [of "tick f s" f'] that by (simp add: tick_current)
  have "stats (run fs (resetStats s)) k = edges False (outputs k fs (resetStats s))"
    using run_stats [of fs "resetStats s" k] by (simp add: resetStats_fields)
  moreover have "stats s k \<le> stats (run fs s) k"
    using run_stats [of fs s k] edges_nonneg [of "currentDetections s k" "outputs k fs s"] by simp
  ultimately show ?thesis
    using run_stats [of fs s k] once [of s f] again by blast
qed

text \<open>
  Claim C1 fails when one callback runs twice. \<open>setInterval\<close> fires \<open>runDetection\<close> every
  300 ms without waiting for the run in flight, whose two \<open>await\<close>s may take longer; the
  second run then holds the same captured \<open>currentDetections\<close> as the first. If the kind
  was captured as inactive and the classifier output is true in both runs, both runs call
  \<open>triggerDetection\<close>: the outputs true, true hold one edge and the counter grows by two.
\<close>

theorem stale_closure_counts_edge_twice:
  "\<not> skips c s \<Longrightarrow> \<not> cCurrentDetections c k \<Longrightarrow>
   classify f s k \<Longrightarrow> classify f' (runDetection c f s) k \<Longrightarrow>
   stats (runDetection c f' (runDetection c f s)) k = stats s k + 2
   \<and> edges (cCurrentDetections c k) [classify f s k, classify f' (runDetection c f s) k] = 1"
proof -
  assume first: "\<not> skips c s" and off: "\<not> cCurrentDetections c k"
    and out1: "classify f s k" and out2: "classify f' (runDetection c f s) k"
  from first have second: "\<not> skips c (runDetection c f s)"
    by (simp add: skips_def runDetection_frame)
  have "stats (runDetection c f s) k = stats s k + 1"
    using off out1 by (simp add: runDetection_stats [OF first])
  moreover have "stats (runDetection c f' (runDetection c f s)) k = stats (runDetection c f s) k + 1"
    using off out2 by (simp add: runDetection_stats [OF second])
  moreover have "edges (cCurrentDetections c k) [classify f s k, classify f' (runDetection c f s) k] = 1"
    using off out1 out2 by simp
  ultimately show ?thesis by simp
qed

theorem stale_closure_counts_edge_twice_witness:
  "\<not> skips (render exReady) exReady
   \<and> \<not> cCurrentDetections (render exReady) PhoneDetected
   \<and> classify exPhone exReady PhoneDetected
   \<and> classify exPhone (runDetection (render exReady) exPhone exReady) PhoneDetected
   \<and> stats exReady PhoneDetected = 0
   \<and> stats (runDetection (render exReady) exPhone (runDetection (render exReady) exPhone exReady)) PhoneDetected = 2
   \<and> edges False [True, True] = 1"
proof -
  have off: "\<not> cCurrentDetections (render exReady) PhoneDetected" and zero: "stats exReady PhoneDetected = 0"
    by (simp_all add: render_def exReady_def initial_def)
  have out1: "classify exPhone exReady PhoneDetected"
    by (rule exPhone_phone)
  then have out2: "classify exPhone (runDetection (render exReady) exPhone exReady) PhoneDetected"
    by (simp add: classify_objects_run)
  show ?thesis
    using stale_closure_counts_edge_twice [OF exReady_runs off out1 out2] exReady_runs off zero out1 out2
    by simp
qed

section \<open>Severity level\<close>

text \<open>
  Claim C2. The total is the sum of the six counters, and the level is Critical from 20,
  High Risk from 15 to 19, Medium Risk from 8 to 14, Low Risk from 3 to 7 and Normal
  from 0 to 2.
\<close>

theorem severity_bands:
  "getTotalViolations s = stats s FocusLost + stats s FaceAbsent + stats s MultipleFaces
     + stats s PhoneDetected + stats s NotesDetected + stats s Drowsiness
   \<and> (20 \<le> getTotalViolations s \<longrightarrow> level (getSeverityLevel s) = ''Critical'')
   \<and> (15 \<le> getTotalViolations s \<and> getTotalViolations s \<le> 19 \<longrightarrow> level (getSeverityLevel s) = ''High Risk'')
   \<and> (8 \<le> getTotalViolations s \<and> getTotalViolations s \<le> 14 \<longrightarrow> level (getSeverityLevel s) = ''Medium Risk'')
   \<and> (3 \<le> getTotalViolations s \<and> getTotalViolations s \<le> 7 \<longrightarrow> level (getSeverityLevel s) = ''Low Risk'')
   \<and> (0 \<le> getTotalViolations s \<and> getTotalViolations s \<le> 2 \<longrightarrow> level (getSeverityLevel s) = ''Normal'')"
  using total_sum [of s] by (simp add: getSeverityLevel_def Let_def)

theorem severity_bands_witness:
  "level (getSeverityLevel (initial\<lparr> stats := (\<lambda>_. 0)(FaceAbsent := 7) \<rparr>)) = ''Low Risk''
   \<and> level (getSeverityLevel (initial\<lparr> stats := (\<lambda>_. 0)(FaceAbsent := 7, Drowsiness := 1) \<rparr>)) = ''Medium Risk''
   \<and> level (getSeverityLevel (initial\<lparr> stats := (\<lambda>_. 0)(FocusLost := 12, PhoneDetected := 7) \<rparr>)) = ''High Risk''
   \<and> level (getSeverityLevel (initial\<lparr> stats := (\<lambda>_. 0)(FocusLost := 12, NotesDetected := 8) \<rparr>)) = ''Critical''
   \<and> level (getSeverityLevel initial) = ''Normal''"
  using severity_bands [of "initial\<lparr> stats := (\<lambda>_. 0)(FaceAbsent := 7) \<rparr>"]
    severity_bands [of "initial\<lparr> stats := (\<lambda>_. 0)(FaceAbsent := 7, Drowsiness := 1) \<rparr>"]
    severity_bands [of "initial\<lparr> stats := (\<lambda>_. 0)(FocusLost := 12, PhoneDetected := 7) \<rparr>"]
    severity_bands [of "initial\<lparr> stats := (\<lambda>_. 0)(FocusLost := 12, NotesDetected := 8) \<rparr>"]
    severity_bands [of initial]
  by (simp add: initial_def)

section \<open>Drowsiness tracker\<close>

text \<open>
  Claim C4. Called with no face, or with a face that has no landmarks,
  \<open>detectDrowsiness\<close> sets \<open>drowsyFrames\<close> to 0, changes nothing else and returns false.
\<close>

theorem drowsiness_without_landmarks:
  "fc = None \<or> (\<exists>a. fc = Some a \<and> landmarks a = None) \<Longrightarrow>
   detectDrowsiness f fc s = (False, s\<lparr> drowsyFrames := 0 \<rparr>)"
  by (auto simp add: detectDrowsiness_def)

theorem drowsiness_without_landmarks_witness:
  "detectDrowsiness exEmpty None (exReady\<lparr> drowsyFrames := 14 \<rparr>) = (False, exReady\<lparr> drowsyFrames := 0 \<rparr>)
   \<and> detectDrowsiness (exEmpty\<lparr> mathRandom := 0 \<rparr>) (Some (toFace (exFace (0, 0) (10, 10) None))) (exReady\<lparr> drowsyFrames := 14 \<rparr>)
       = (False, exReady\<lparr> drowsyFrames := 0 \<rparr>)"
  using drowsiness_without_landmarks [of None exEmpty "exReady\<lparr> drowsyFrames := 14 \<rparr>"]
    drowsiness_without_landmarks [of "Some (toFace (exFace (0, 0) (10, 10) None))" "exEmpty\<lparr> mathRandom := 0 \<rparr>" "exReady\<lparr> drowsyFrames := 14 \<rparr>"]
  by (simp add: toFace_def exFace_def)

section \<open>Reset\<close>

text \<open>
  Claim C5. \<open>resetStats\<close> is idempotent: after it all six counters are 0, all six
  active flags are false and both frame counters are 0, and a second call changes nothing.
\<close>

theorem resetStats_idempotent:
  "resetStats (resetStats s) = resetStats s
   \<and> (\<forall>k. stats (resetStats s) k = 0)
   \<and> (\<forall>k. \<not> currentDetections (resetStats s) k)
   \<and> focusLostFrames (resetStats s) = 0
   \<and> drowsyFrames (resetStats s) = 0"
  by (simp add: resetStats_def)

section \<open>Focus tracker\<close>

text \<open>
  Claim C3, as stated, compares the exact euclidean distance of the face centre from the
  centre of the video. The code compares the \<open>drift\<close> it computes in doubles: for the face
  \<open>exGrazing\<close>, centred at (440, 240.0000001), in a 640 by 480 video the exact distance
  is above 120, the computed drift is 120, and a counter of 34 drops to 33 with result
  false, where the claim has it rise to 35 with result true.
\<close>

theorem focus_exact_distance_counterexample:
  "min (videoW (exReady\<lparr> focusLostFrames := 34 \<rparr>) exEmpty) (videoH (exReady\<lparr> focusLostFrames := 34 \<rparr>) exEmpty) / 4
     < sqrt ((centerX exGrazing - videoW (exReady\<lparr> focusLostFrames := 34 \<rparr>) exEmpty / 2)\<^sup>2
           + (centerY exGrazing - videoH (exReady\<lparr> focusLostFrames := 34 \<rparr>) exEmpty / 2)\<^sup>2)
   \<and> detectFocusLoss exEmpty (Some exGrazing) (exReady\<lparr> focusLostFrames := 34 \<rparr>)
       = (False, exReady\<lparr> focusLostFrames := 33 \<rparr>)"
proof -
  have "(120::real)\<^sup>2 < 120\<^sup>2 + (3518437 / 2 ^ 45)\<^sup>2" by simp
  then have "(120::real) < sqrt (120\<^sup>2 + (3518437 / 2 ^ 45)\<^sup>2)"
    by (rule real_less_rsqrt)
  moreover have "centerX exGrazing - videoW (exReady\<lparr> focusLostFrames := 34 \<rparr>) exEmpty / 2 = 120"
    and "centerY exGrazing - videoH (exReady\<lparr> focusLostFrames := 34 \<rparr>) exEmpty / 2 = 3518437 / 2 ^ 45"
    and "min (videoW (exReady\<lparr> focusLostFrames := 34 \<rparr>) exEmpty) (videoH (exReady\<lparr> focusLostFrames := 34 \<rparr>) exEmpty) / 4 = 120"
    by (simp_all add: exGrazing_def exFaceAt_def ex_video)
  ultimately have far: "min (videoW (exReady\<lparr> focusLostFrames := 34 \<rparr>) exEmpty) (videoH (exReady\<lparr> focusLostFrames := 34 \<rparr>) exEmpty) / 4
     < sqrt ((centerX exGrazing - videoW (exReady\<lparr> focusLostFrames := 34 \<rparr>) exEmpty / 2)\<^sup>2
           + (centerY exGrazing - videoH (exReady\<lparr> focusLostFrames := 34 \<rparr>) exEmpty / 2)\<^sup>2)"
    by (simp only:)
  have "detectFocusLoss exEmpty (Some exGrazing) (exReady\<lparr> focusLostFrames := 34 \<rparr>)
       = (False, exReady\<lparr> focusLostFrames := 33 \<rparr>)"
    by (simp add: detectFocusLoss_def Let_def drift_grazing ex_video FOCUS_LOST_FRAMES_def)
  with far show ?thesis by (rule conjI)
qed

text \<open>
  Claim C3, amended. One call of \<open>detectFocusLoss\<close>: with no face the counter grows by
  one; with a face whose drift, the distance of its centre from the centre of the video
  as the code computes it in double-precision arithmetic, exceeds a quarter of the
  smaller video dimension the counter grows by one, otherwise it drops by one but not
  below 0; nothing else in the state changes. The call returns true exactly when the
  new counter is at least 35: true at 35, false at 34, and a call that returns true
  from a counter below 35 has brought it to exactly 35.
\<close>

theorem focus_tracker_update:
  "snd (detectFocusLoss f None s) = s\<lparr> focusLostFrames := focusLostFrames s + 1 \<rparr>
   \<and> (drift s f a > min (videoW s f) (videoH s f) / 4
        \<longrightarrow> snd (detectFocusLoss f (Some a) s) = s\<lparr> focusLostFrames := focusLostFrames s + 1 \<rparr>)
   \<and> (\<not> drift s f a > min (videoW s f) (videoH s f) / 4
        \<longrightarrow> snd (detectFocusLoss f (Some a) s) = s\<lparr> focusLostFrames := max 0 (focusLostFrames s - 1) \<rparr>)
   \<and> drift s f a = fl (sqrt (fl (fl (\<bar>fl (centerX a - videoW s f / 2)\<bar> * \<bar>fl (centerX a - videoW s f / 2)\<bar>)
                                  + fl (\<bar>fl (centerY a - videoH s f / 2)\<bar> * \<bar>fl (centerY a - videoH s f / 2)\<bar>))))
   \<and> (fst (detectFocusLoss f fc s) \<longleftrightarrow> focusLostFrames (snd (detectFocusLoss f fc s)) \<ge> 35)
   \<and> (focusLostFrames (snd (detectFocusLoss f fc s)) = 35 \<longrightarrow> fst (detectFocusLoss f fc s))
   \<and> (focusLostFrames (snd (detectFocusLoss f fc s)) = 34 \<longrightarrow> \<not> fst (detectFocusLoss f fc s))
   \<and> (focusLostFrames s < 35 \<and> fst (detectFocusLoss f fc s)
        \<longrightarrow> focusLostFrames (snd (detectFocusLoss f fc s)) = 35)"
proof -
  have ret: "fst (detectFocusLoss f fc s) \<longleftrightarrow> focusLostFrames (snd (detectFocusLoss f fc s)) \<ge> 35"
    by (simp add: detectFocusLoss_def Let_def FOCUS_LOST_FRAMES_def split: option.splits)
  have step: "focusLostFrames s < 35 \<longrightarrow> focusLostFrames (snd (detectFocusLoss f fc s)) \<le> 35"
    by (simp add: detectFocusLoss_def Let_def split: option.splits)
  have absent: "snd (detectFocusLoss f None s) = s\<lparr> focusLostFrames := focusLostFrames s + 1 \<rparr>"
    by (simp add: detectFocusLoss_def Let_def)
  have present: "snd (detectFocusLoss f (Some a) s) =
      (if drift s f a > min (videoW s f) (videoH s f) / 4
       then s\<lparr> focusLostFrames := focusLostFrames s + 1 \<rparr>
       else s\<lparr> focusLostFrames := max 0 (focusLostFrames s - 1) \<rparr>)"
    by (simp add: detectFocusLoss_def Let_def)
  have computed: "drift s f a = fl (sqrt (fl (fl (\<bar>fl (centerX a - videoW s f / 2)\<bar> * \<bar>fl (centerX a - videoW s f / 2)\<bar>)
                                  + fl (\<bar>fl (centerY a - videoH s f / 2)\<bar> * \<bar>fl (centerY a - videoH s f / 2)\<bar>))))"
    by (simp add: drift_def Let_def)
  show ?thesis
    using ret step absent present computed by auto
qed

theorem focus_tracker_update_witness:
  "detectFocusLoss exEmpty None (exReady\<lparr> focusLostFrames := 34 \<rparr>) = (True, exReady\<lparr> focusLostFrames := 35 \<rparr>)
   \<and> detectFocusLoss exEmpty None (exReady\<lparr> focusLostFrames := 33 \<rparr>) = (False, exReady\<lparr> focusLostFrames := 34 \<rparr>)
   \<and> drift (exReady\<lparr> focusLostFrames := 34 \<rparr>) exEmpty (exFaceAt 320 0) = 240
   \<and> detectFocusLoss exEmpty (Some (exFaceAt 320 0)) (exReady\<lparr> focusLostFrames := 34 \<rparr>)
       = (True, exReady\<lparr> focusLostFrames := 35 \<rparr>)
   \<and> drift (exReady\<lparr> focusLostFrames := 35 \<rparr>) exEmpty (exFaceAt 320 240) = 0
   \<and> detectFocusLoss exEmpty (Some (exFaceAt 320 240)) (exReady\<lparr> focusLostFrames := 35 \<rparr>)
       = (False, exReady\<lparr> focusLostFrames := 34 \<rparr>)
   \<and> detectFocusLoss exEmpty (Some (exFaceAt 320 240)) exReady
       = (False, exReady\<lparr> focusLostFrames := 0 \<rparr>)"
proof -
  have far: "min (videoW (exReady\<lparr> focusLostFrames := 34 \<rparr>) exEmpty) (videoH (exReady\<lparr> focusLostFrames := 34 \<rparr>) exEmpty) / 4
      < drift (exReady\<lparr> focusLostFrames := 34 \<rparr>) exEmpty (exFaceAt 320 0)"
    by (simp add: ex_video drift_examples)
  have near: "\<not> min (videoW (exReady\<lparr> focusLostFrames := 35 \<rparr>) exEmpty) (videoH (exReady\<lparr> focusLostFrames := 35 \<rparr>) exEmpty) / 4
      < drift (exReady\<lparr> focusLostFrames := 35 \<rparr>) exEmpty (exFaceAt 320 240)"
    by (simp add: ex_video drift_examples)
  have rest: "\<not> min (videoW exReady exEmpty) (videoH exReady exEmpty) / 4
      < drift exReady exEmpty (exFaceAt 320 240)"
    by (simp add: ex_video drift_examples)
  have zero: "focusLostFrames exReady = 0" "exReady\<lparr> focusLostFrames := 0 \<rparr> = exReady"
    by (simp_all add: exReady_def initial_def)
  have absent35: "detectFocusLoss exEmpty None (exReady\<lparr> focusLostFrames := 34 \<rparr>)
      = (True, exReady\<lparr> focusLostFrames := 35 \<rparr>)"
    using focus_tracker_update [of exEmpty "exReady\<lparr> focusLostFrames := 34 \<rparr>" "exFaceAt 320 0" None]
    by (simp add: prod_eq_iff)
  have absent34: "detectFocusLoss exEmpty None (exReady\<lparr> focusLostFrames := 33 \<rparr>)
      = (False, exReady\<lparr> focusLostFrames := 34 \<rparr>)"
    using focus_tracker_update [of exEmpty "exReady\<lparr> focusLostFrames := 33 \<rparr>" "exFaceAt 320 0" None]
    by (simp add: prod_eq_iff)
  have away: "detectFocusLoss exEmpty (Some (exFaceAt 320 0)) (exReady\<lparr> focusLostFrames := 34 \<rparr>)
      = (True, exReady\<lparr> focusLostFrames := 35 \<rparr>)"
    using focus_tracker_update [of exEmpty "exReady\<lparr> focusLostFrames := 34 \<rparr>"
        "exFaceAt 320 0" "Some (exFaceAt 320 0)"] far
    by (simp add: prod_eq_iff)
  have decays: "detectFocusLoss exEmpty (Some (exFaceAt 320 240)) (exReady\<lparr> focusLostFrames := 35 \<rparr>)
      = (False, exReady\<lparr> focusLostFrames := 34 \<rparr>)"
    using focus_tracker_update [of exEmpty "exReady\<lparr> focusLostFrames := 35 \<rparr>"
        "exFaceAt 320 240" "Some (exFaceAt 320 240)"] near
    by (simp add: prod_eq_iff)
  have floored: "detectFocusLoss exEmpty (Some (exFaceAt 320 240)) exReady
      = (False, exReady\<lparr> focusLostFrames := 0 \<rparr>)"
    using focus_tracker_update [of exEmpty exReady "exFaceAt 320 240" "Some (exFaceAt 320 240)"] rest
    by (simp add: prod_eq_iff zero)
  show ?thesis
    using absent35 absent34 away decays floored by (simp add: drift_examples)
qed

section \<open>Skipped ticks\<close>

text \<open>
  Claim C6. When the video element is missing, the camera is not active or the models
  are not loaded, \<open>runDetection\<close> returns the state unchanged: no counter, flag or
  frame counter moves. Nothing is latched: a later run whose guard passes pushes all six
  entries, in particular the first tick after \<open>loadModels\<close>.
\<close>

theorem skipped_tick_changes_nothing:
  "videoRef s = None \<or> \<not> cCameraActive c \<or> \<not> cModelsLoaded c \<Longrightarrow>
   runDetection c f s = s
   \<and> (\<forall>c' f'. videoRef s \<noteq> None \<and> cCameraActive c' \<and> cModelsLoaded c' \<longrightarrow>
        map resType (detectionResults (runDetection c' f' (runDetection c f s))) = pushOrder)
   \<and> (cameraActive s \<and> videoRef s \<noteq> None \<longrightarrow>
        (\<forall>f'. map resType (detectionResults (tick f' (loadModels (runDetection c f s)))) = pushOrder))"
proof -
  assume skip: "videoRef s = None \<or> \<not> cCameraActive c \<or> \<not> cModelsLoaded c"
  then have same: "runDetection c f s = s"
    by (simp add: runDetection_skip skips_def)
  have retry: "map resType (detectionResults (runDetection c' f' s)) = pushOrder"
    if "videoRef s \<noteq> None \<and> cCameraActive c' \<and> cModelsLoaded c'" for c' f'
    using that by (simp add: runDetection_results skips_def comp_def)
  have loaded: "map resType (detectionResults (tick f' (loadModels s))) = pushOrder"
    if "cameraActive s \<and> videoRef s \<noteq> None" for f'
    using that by (simp add: tick_def runDetection_results skips_def render_def loadModels_def comp_def)
  show ?thesis using same retry loaded by simp
qed

theorem skipped_tick_changes_nothing_witness:
  "runDetection (render (exReady\<lparr> modelsLoaded := False \<rparr>)) exPhone (exReady\<lparr> modelsLoaded := False \<rparr>)
     = exReady\<lparr> modelsLoaded := False \<rparr>
   \<and> runDetection (render initial) exPhone initial = initial
   \<and> map resType (detectionResults (tick exPhone (loadModels
        (runDetection (render (exReady\<lparr> modelsLoaded := False \<rparr>)) exPhone (exReady\<lparr> modelsLoaded := False \<rparr>)))))
       = pushOrder"
proof -
  have notLoaded: "videoRef (exReady\<lparr> modelsLoaded := False \<rparr>) = None
      \<or> \<not> cCameraActive (render (exReady\<lparr> modelsLoaded := False \<rparr>))
      \<or> \<not> cModelsLoaded (render (exReady\<lparr> modelsLoaded := False \<rparr>))"
    by (simp add: render_def)
  have noVideo: "videoRef initial = None \<or> \<not> cCameraActive (render initial) \<or> \<not> cModelsLoaded (render initial)"
    by (simp add: initial_def)
  have camera: "cameraActive (exReady\<lparr> modelsLoaded := False \<rparr>) \<and> videoRef (exReady\<lparr> modelsLoaded := False \<rparr>) \<noteq> None"
    by (simp add: exReady_def initial_def)
  show ?thesis
    using skipped_tick_changes_nothing [OF notLoaded, of exPhone]
      skipped_tick_changes_nothing [OF noVideo, of exPhone] camera
    by blast
qed

section \<open>Object flags\<close>

text \<open>
  Claim C7. After a tick that ran, the phone flag holds exactly when some object of the
  frame has class phone, and the notes flag exactly when some object has class book;
  in terms of the model's predictions, when some prediction is a cell phone or a book.
  Replacing every score by any other value changes neither flag.
\<close>

theorem object_flags_ignore_confidence:
  "\<not> skips (render s) s \<Longrightarrow>
   (currentDetections (tick f s) PhoneDetected
      \<longleftrightarrow> (\<exists>obj\<in>set (detectObjectsTF s (videoRef s) (objectPredictions f)). objClass obj = ''phone''))
   \<and> (currentDetections (tick f s) NotesDetected
      \<longleftrightarrow> (\<exists>obj\<in>set (detectObjectsTF s (videoRef s) (objectPredictions f)). objClass obj = ''book''))
   \<and> (cocoSsdModelRef s \<longrightarrow>
        (currentDetections (tick f s) PhoneDetected
           \<longleftrightarrow> (\<exists>p\<in>set (objectPredictions f). predClass p = ''cell phone''))
        \<and> (currentDetections (tick f s) NotesDetected
           \<longleftrightarrow> (\<exists>p\<in>set (objectPredictions f). predClass p = ''book'')))
   \<and> currentDetections (tick (f\<lparr> objectPredictions := map (\<lambda>p. p\<lparr> score := g p \<rparr>) (objectPredictions f) \<rparr>) s) PhoneDetected
       = currentDetections (tick f s) PhoneDetected
   \<and> currentDetections (tick (f\<lparr> objectPredictions := map (\<lambda>p. p\<lparr> score := g p \<rparr>) (objectPredictions f) \<rparr>) s) NotesDetected
       = currentDetections (tick f s) NotesDetected"
proof -
  assume runs: "\<not> skips (render s) s"
  then have video: "videoRef s \<noteq> None" by (simp add: skips_def)
  have phone: "currentDetections (tick f s) PhoneDetected
      \<longleftrightarrow> (\<exists>obj\<in>set (detectObjectsTF s (videoRef s) (objectPredictions f)). objClass obj = ''phone'')"
    using runs by (simp add: tick_current classify_def list_ex_set)
  have book: "currentDetections (tick f s) NotesDetected
      \<longleftrightarrow> (\<exists>obj\<in>set (detectObjectsTF s (videoRef s) (objectPredictions f)). objClass obj = ''book'')"
    using runs by (simp add: tick_current classify_def list_ex_set)
  have raw: "cocoSsdModelRef s \<longrightarrow>
        (currentDetections (tick f s) PhoneDetected
           \<longleftrightarrow> (\<exists>p\<in>set (objectPredictions f). predClass p = ''cell phone''))
        \<and> (currentDetections (tick f s) NotesDetected
           \<longleftrightarrow> (\<exists>p\<in>set (objectPredictions f). predClass p = ''book''))"
    using phone book video by (simp add: objects_phone objects_book)
  have same: "currentDetections (tick (f\<lparr> objectPredictions := map (\<lambda>p. p\<lparr> score := g p \<rparr>) (objectPredictions f) \<rparr>) s) k
       = currentDetections (tick f s) k" if "k = PhoneDetected \<or> k = NotesDetected" for k
    using runs that by (simp add: tick_current classify_rescored)
  show ?thesis using phone book raw same by blast
qed

theorem object_flags_ignore_confidence_witness:
  "\<not> skips (render exReady) exReady
   \<and> currentDetections (tick exPhone exReady) PhoneDetected
   \<and> \<not> currentDetections (tick exPhone exReady) NotesDetected
   \<and> currentDetections (tick (exPhone\<lparr> objectPredictions :=
        map (\<lambda>p. p\<lparr> score := 0 \<rparr>) (objectPredictions exPhone) \<rparr>) exReady) PhoneDetected"
proof -
  have loaded: "cocoSsdModelRef exReady" by (simp add: exReady_def)
  have phone: "\<exists>p\<in>set (objectPredictions exPhone). predClass p = ''cell phone''"
    by (simp add: exPhone_def exEmpty_def)
  have book: "\<not> (\<exists>p\<in>set (objectPredictions exPhone). predClass p = ''book'')"
    by (simp add: exPhone_def exEmpty_def)
  show ?thesis
    using object_flags_ignore_confidence [OF exReady_runs, of exPhone "\<lambda>p. 0"] exReady_runs loaded
      phone book
    by blast
qed

section \<open>Snapshot of results\<close>

text \<open>
  Claim C8. Every run of \<open>runDetection\<close> that passes the guard stores six entries in
  \<open>detectionResults\<close>, one for each kind, each carrying that kind's classifier output,
  whatever the flags were before.
\<close>

theorem full_snapshot_every_tick:
  "videoRef s \<noteq> None \<and> cCameraActive c \<and> cModelsLoaded c \<Longrightarrow>
   detectionResults (runDetection c f s) = map (\<lambda>k. \<lparr> resType = k, active = classify f s k \<rparr>) pushOrder
   \<and> map resType (detectionResults (runDetection c f s))
       = [FaceAbsent, MultipleFaces, FocusLost, Drowsiness, PhoneDetected, NotesDetected]
   \<and> length (detectionResults (runDetection c f s)) = 6
   \<and> (\<forall>k. length (filter (\<lambda>r. resType r = k) (detectionResults (runDetection c f s))) = 1)"
proof -
  assume "videoRef s \<noteq> None \<and> cCameraActive c \<and> cModelsLoaded c"
  then have res: "detectionResults (runDetection c f s)
      = map (\<lambda>k. \<lparr> resType = k, active = classify f s k \<rparr>) pushOrder"
    by (simp add: runDetection_results skips_def)
  have once: "\<forall>k. length (filter (\<lambda>r. resType r = k) (detectionResults (runDetection c f s))) = 1"
  proof
    fix k
    show "length (filter (\<lambda>r. resType r = k) (detectionResults (runDetection c f s))) = 1"
      by (cases k) (simp_all add: res pushOrder_def)
  qed
  have "map resType (detectionResults (runDetection c f s))
       = [FaceAbsent, MultipleFaces, FocusLost, Drowsiness, PhoneDetected, NotesDetected]"
    unfolding res by (simp add: pushOrder_def)
  moreover have "length (detectionResults (runDetection c f s)) = 6"
    unfolding res by (simp add: pushOrder_def)
  ultimately show ?thesis using res once by blast
qed

theorem full_snapshot_every_tick_witness:
  "videoRef exReady \<noteq> None \<and> cCameraActive (render exReady) \<and> cModelsLoaded (render exReady)
   \<and> detectionResults (runDetection (render exReady) exEmpty exReady) =
       [\<lparr> resType = FaceAbsent, active = True \<rparr>, \<lparr> resType = MultipleFaces, active = False \<rparr>,
        \<lparr> resType = FocusLost, active = False \<rparr>, \<lparr> resType = Drowsiness, active = False \<rparr>,
        \<lparr> resType = PhoneDetected, active = False \<rparr>, \<lparr> resType = NotesDetected, active = False \<rparr>]
   \<and> detectionResults (runDetection (render (runDetection (render exReady) exEmpty exReady)) exEmpty
         (runDetection (render exReady) exEmpty exReady)) =
       detectionResults (runDetection (render exReady) exEmpty exReady)"
proof -
  have ready: "videoRef exReady \<noteq> None \<and> cCameraActive (render exReady) \<and> cModelsLoaded (render exReady)"
    by (simp add: exReady_def initial_def render_def)
  have ready': "videoRef (runDetection (render exReady) exEmpty exReady) \<noteq> None
      \<and> cCameraActive (render (runDetection (render exReady) exEmpty exReady))
      \<and> cModelsLoaded (render (runDetection (render exReady) exEmpty exReady))"
    using ready by (simp add: runDetection_frame render_def)
  have faces: "detectFacesTF s v (facePredictions exEmpty) = []" for s v
    by (simp add: detectFacesTF_def exEmpty_def)
  have objs: "detectObjectsTF s v (objectPredictions exEmpty) = []" for s v
    by (simp add: detectObjectsTF_def exEmpty_def)
  have cls: "classify exEmpty exReady k = (k = FaceAbsent)" for k
    by (cases k) (simp_all add: classify_def faces objs mainFaceOf_def detectFocusLoss_def
        detectDrowsiness_def FOCUS_LOST_FRAMES_def exReady_def initial_def)
  have cls': "classify exEmpty (runDetection (render exReady) exEmpty exReady) k = (k = FaceAbsent)" for k
    using ready by (cases k) (simp_all add: classify_def faces objs mainFaceOf_def detectFocusLoss_def
        detectDrowsiness_def FOCUS_LOST_FRAMES_def runDetection_focusLostFrames skips_def
        exReady_def initial_def)
  show ?thesis
    using full_snapshot_every_tick [OF ready, of exEmpty]
      full_snapshot_every_tick [OF ready', of exEmpty] ready
    by (simp add: cls cls' pushOrder_def)
qed

section \<open>Stopping and restarting\<close>

text \<open>
  Claim C9. Stopping monitoring changes only \<open>isMonitoring\<close>, \<open>cameraActive\<close>, the
  stream's tracks and the video's source: counters, active flags and both frame counters
  stay as they were, and they are still the same after the next start, whether or not
  the camera could be started.
\<close>

theorem stop_keeps_statistics:
  "isMonitoring s \<Longrightarrow>
   handleStartStop m s = Inr (s\<lparr> isMonitoring := False, cameraActive := False,
       streamRef := map_option (\<lambda>_. False) (streamRef s),
       videoRef := map_option (\<lambda>v. v\<lparr> srcObject := False \<rparr>) (videoRef s) \<rparr>)
   \<and> stats (settled (handleStartStop m s)) = stats s
   \<and> currentDetections (settled (handleStartStop m s)) = currentDetections s
   \<and> focusLostFrames (settled (handleStartStop m s)) = focusLostFrames s
   \<and> drowsyFrames (settled (handleStartStop m s)) = drowsyFrames s
   \<and> \<not> isMonitoring (settled (handleStartStop m s))
   \<and> \<not> cameraActive (settled (handleStartStop m s))
   \<and> stats (settled (handleStartStop m' (settled (handleStartStop m s)))) = stats s
   \<and> currentDetections (settled (handleStartStop m' (settled (handleStartStop m s)))) = currentDetections s
   \<and> focusLostFrames (settled (handleStartStop m' (settled (handleStartStop m s)))) = focusLostFrames s
   \<and> drowsyFrames (settled (handleStartStop m' (settled (handleStartStop m s)))) = drowsyFrames s
   \<and> (m' = Stream True \<longrightarrow>
        isMonitoring (settled (handleStartStop m' (settled (handleStartStop m s))))
        \<and> cameraActive (settled (handleStartStop m' (settled (handleStartStop m s)))))"
proof -
  assume mon: "isMonitoring s"
  then have stop: "handleStartStop m s = Inr (s\<lparr> isMonitoring := False, cameraActive := False,
       streamRef := map_option (\<lambda>_. False) (streamRef s),
       videoRef := map_option (\<lambda>v. v\<lparr> srcObject := False \<rparr>) (videoRef s) \<rparr>)"
    by (simp add: handleStartStop_def stopCamera_eq)
  have flags: "\<not> isMonitoring (settled (handleStartStop m s)) \<and> \<not> cameraActive (settled (handleStartStop m s))"
    by (simp add: stop settled_def)
  have restart: "isMonitoring (settled (handleStartStop (Stream True) t)) \<and> cameraActive (settled (handleStartStop (Stream True) t))"
    if "\<not> isMonitoring t \<and> \<not> cameraActive t" for t
    using that by (simp add: handleStartStop_def startCamera_def settled_def Let_def split: option.splits)
  have later: "m' = Stream True \<longrightarrow>
        isMonitoring (settled (handleStartStop m' (settled (handleStartStop m s))))
        \<and> cameraActive (settled (handleStartStop m' (settled (handleStartStop m s))))"
    using restart [OF flags] by blast
  have kept: "stats (settled (handleStartStop m s)) = stats s
      \<and> currentDetections (settled (handleStartStop m s)) = currentDetections s
      \<and> focusLostFrames (settled (handleStartStop m s)) = focusLostFrames s
      \<and> drowsyFrames (settled (handleStartStop m s)) = drowsyFrames s
      \<and> stats (settled (handleStartStop m' (settled (handleStartStop m s)))) = stats s
      \<and> currentDetections (settled (handleStartStop m' (settled (handleStartStop m s)))) = currentDetections s
      \<and> focusLostFrames (settled (handleStartStop m' (settled (handleStartStop m s)))) = focusLostFrames s
      \<and> drowsyFrames (settled (handleStartStop m' (settled (handleStartStop m s)))) = drowsyFrames s"
    by (simp only: handleStartStop_keeps)
  show ?thesis
    using stop flags later kept by blast
qed

theorem stop_keeps_statistics_witness:
  "isMonitoring (tick exPhone exReady)
   \<and> stats (settled (handleStartStop Denied (tick exPhone exReady))) PhoneDetected = 1
   \<and> currentDetections (settled (handleStartStop Denied (tick exPhone exReady))) PhoneDetected
   \<and> \<not> isMonitoring (settled (handleStartStop Denied (tick exPhone exReady)))
   \<and> \<not> cameraActive (settled (handleStartStop Denied (tick exPhone exReady)))
   \<and> stats (settled (handleStartStop (Stream True) (settled (handleStartStop Denied (tick exPhone exReady))))) PhoneDetected = 1
   \<and> isMonitoring (settled (handleStartStop (Stream True) (settled (handleStartStop Denied (tick exPhone exReady)))))"
proof -
  have mon: "isMonitoring (tick exPhone exReady)"
    by (simp add: tick_frame exReady_def)
  have one: "stats (tick exPhone exReady) PhoneDetected = 1"
    by (simp add: tick_stats exReady_runs exPhone_phone) (simp add: exReady_def initial_def)
  have cur: "currentDetections (tick exPhone exReady) PhoneDetected"
    by (simp add: tick_current exReady_runs exPhone_phone)
  have kept: "stats (settled (handleStartStop Denied (tick exPhone exReady))) = stats (tick exPhone exReady)
      \<and> currentDetections (settled (handleStartStop Denied (tick exPhone exReady)))
          = currentDetections (tick exPhone exReady)
      \<and> \<not> isMonitoring (settled (handleStartStop Denied (tick exPhone exReady)))
      \<and> \<not> cameraActive (settled (handleStartStop Denied (tick exPhone exReady)))
      \<and> stats (settled (handleStartStop (Stream True) (settled (handleStartStop Denied (tick exPhone exReady)))))
          = stats (tick exPhone exReady)
      \<and> isMonitoring (settled (handleStartStop (Stream True) (settled (handleStartStop Denied (tick exPhone exReady)))))"
    using stop_keeps_statistics [OF mon, of Denied "Stream True"] by blast
  show ?thesis
    using kept mon one cur by simp
qed

section \<open>Drowsiness without a face\<close>

text \<open>
  For a run with no face, \<open>detectDrowsiness\<close> resets \<open>drowsyFrames\<close> and returns false
  whatever the callback captured. When the callback is that of the latest render the
  drowsiness flag is cleared as well, drowsiness is active after a tick only if the frame's
  first face had landmarks, and drowsiness that was inactive before a sequence of ticks
  and is active after it means that some frame's first face prediction had landmarks.
\<close>

lemma fresh_tick_drowsiness:
  "(\<not> skips (render s) s \<and> detectFacesTF s (videoRef s) (facePredictions f) = []
      \<longrightarrow> \<not> currentDetections (tick f s) Drowsiness \<and> drowsyFrames (tick f s) = 0)
   \<and> (\<not> skips (render s) s \<and> currentDetections (tick f s) Drowsiness
      \<longrightarrow> (\<exists>a. mainFaceOf (detectFacesTF s (videoRef s) (facePredictions f)) = Some a \<and> landmarks a \<noteq> None))
   \<and> (\<not> currentDetections s Drowsiness \<and> currentDetections (run fs s) Drowsiness
      \<longrightarrow> (\<exists>g\<in>set fs. \<exists>p qs. facePredictions g = p # qs \<and> predLandmarks p \<noteq> None))"
proof -
  have absent: "\<not> currentDetections (tick f s) Drowsiness \<and> drowsyFrames (tick f s) = 0"
    if "\<not> skips (render s) s" "detectFacesTF s (videoRef s) (facePredictions f) = []"
    using that by (simp add: tick_current tick_drowsyFrames classify_def mainFaceOf_def detectDrowsiness_def)
  have active: "\<exists>a. mainFaceOf (detectFacesTF s (videoRef s) (facePredictions f)) = Some a \<and> landmarks a \<noteq> None"
    if "\<not> skips (render s) s" "currentDetections (tick f s) Drowsiness"
    using that drowsy_needs_landmarks by (fastforce simp add: tick_current classify_def)
  show ?thesis
    using absent active drowsiness_traced [of s fs] by blast
qed

text \<open>
  Claim C10 fails when one callback runs twice, the defect of claim C1. The run guards
  \<open>clearDetection\<close> by the captured flag: a callback that captured drowsiness as
  inactive does not clear a flag that an earlier run of the same callback has set. After
  such a run on a frame with no face, \<open>drowsyFrames\<close> is 0 and the pushed entry is
  inactive, but the drowsiness flag is still active.
\<close>

theorem stale_closure_keeps_drowsiness:
  "\<not> skips c s \<Longrightarrow> currentDetections s Drowsiness \<Longrightarrow> \<not> cCurrentDetections c Drowsiness \<Longrightarrow>
   detectFacesTF s (videoRef s) (facePredictions f) = [] \<Longrightarrow>
   currentDetections (runDetection c f s) Drowsiness
   \<and> drowsyFrames (runDetection c f s) = 0
   \<and> \<lparr> resType = Drowsiness, active = False \<rparr> \<in> set (detectionResults (runDetection c f s))"
proof -
  assume runs: "\<not> skips c s" and on: "currentDetections s Drowsiness"
    and off: "\<not> cCurrentDetections c Drowsiness"
    and none: "detectFacesTF s (videoRef s) (facePredictions f) = []"
  from none have out: "\<not> classify f s Drowsiness"
    by (simp add: classify_def mainFaceOf_def detectDrowsiness_def)
  have "currentDetections (runDetection c f s) Drowsiness"
    using on off out by (simp add: runDetection_current [OF runs])
  moreover have "drowsyFrames (runDetection c f s) = 0"
    using none by (simp add: runDetection_drowsyFrames [OF runs] mainFaceOf_def detectDrowsiness_def)
  moreover have "\<lparr> resType = Drowsiness, active = False \<rparr> \<in> set (detectionResults (runDetection c f s))"
    using out by (simp add: runDetection_results [OF runs] pushOrder_def)
  ultimately show ?thesis by simp
qed

theorem stale_closure_keeps_drowsiness_witness:
  "\<not> cCurrentDetections (render (exReady\<lparr> drowsyFrames := 14 \<rparr>)) Drowsiness
   \<and> \<not> currentDetections (exReady\<lparr> drowsyFrames := 14 \<rparr>) Drowsiness
   \<and> currentDetections (runDetection (render (exReady\<lparr> drowsyFrames := 14 \<rparr>)) exClosed
         (exReady\<lparr> drowsyFrames := 14 \<rparr>)) Drowsiness
   \<and> detectFacesTF (runDetection (render (exReady\<lparr> drowsyFrames := 14 \<rparr>)) exClosed (exReady\<lparr> drowsyFrames := 14 \<rparr>))
         (videoRef (runDetection (render (exReady\<lparr> drowsyFrames := 14 \<rparr>)) exClosed (exReady\<lparr> drowsyFrames := 14 \<rparr>)))
         (facePredictions exEmpty) = []
   \<and> currentDetections (runDetection (render (exReady\<lparr> drowsyFrames := 14 \<rparr>)) exEmpty
         (runDetection (render (exReady\<lparr> drowsyFrames := 14 \<rparr>)) exClosed (exReady\<lparr> drowsyFrames := 14 \<rparr>))) Drowsiness
   \<and> drowsyFrames (runDetection (render (exReady\<lparr> drowsyFrames := 14 \<rparr>)) exEmpty
         (runDetection (render (exReady\<lparr> drowsyFrames := 14 \<rparr>)) exClosed (exReady\<lparr> drowsyFrames := 14 \<rparr>))) = 0"
proof -
  have runs: "\<not> skips (render (exReady\<lparr> drowsyFrames := 14 \<rparr>)) (exReady\<lparr> drowsyFrames := 14 \<rparr>)"
    by (simp add: skips_def render_def exReady_def initial_def)
  then have runs': "\<not> skips (render (exReady\<lparr> drowsyFrames := 14 \<rparr>))
      (runDetection (render (exReady\<lparr> drowsyFrames := 14 \<rparr>)) exClosed (exReady\<lparr> drowsyFrames := 14 \<rparr>))"
    by (simp add: skips_def runDetection_frame)
  have off: "\<not> cCurrentDetections (render (exReady\<lparr> drowsyFrames := 14 \<rparr>)) Drowsiness"
    and off': "\<not> currentDetections (exReady\<lparr> drowsyFrames := 14 \<rparr>) Drowsiness"
    by (simp_all add: render_def exReady_def initial_def)
  have "classify exClosed (exReady\<lparr> drowsyFrames := 14 \<rparr>) Drowsiness"
    by (simp add: classify_def detectFacesTF_def mainFaceOf_def detectDrowsiness_def toFace_def
        exFace_def exClosed_def exCentred_def exEmpty_def exReady_def initial_def DROWSINESS_FRAMES_def)
  with off have on: "currentDetections (runDetection (render (exReady\<lparr> drowsyFrames := 14 \<rparr>)) exClosed
         (exReady\<lparr> drowsyFrames := 14 \<rparr>)) Drowsiness"
    by (simp add: runDetection_current [OF runs])
  have none: "detectFacesTF (runDetection (render (exReady\<lparr> drowsyFrames := 14 \<rparr>)) exClosed (exReady\<lparr> drowsyFrames := 14 \<rparr>))
         (videoRef (runDetection (render (exReady\<lparr> drowsyFrames := 14 \<rparr>)) exClosed (exReady\<lparr> drowsyFrames := 14 \<rparr>)))
         (facePredictions exEmpty) = []"
    by (simp add: detectFacesTF_def exEmpty_def)
  show ?thesis
    using stale_closure_keeps_drowsiness [OF runs' on off none] off off' on none
    by blast
qed

end
